theory Spec2Isabelle
  imports Complex_Main "HOL-Library.Multiset"
begin

section \<open>Data model\<close>

text \<open>
  The simulator is written in TypeScript. A JavaScript \<open>number\<close> is modelled as a
  \<^typ>\<open>real\<close>: the model covers the runs in which every number stays finite, and it
  computes without rounding. Counts and loop indices are \<^typ>\<open>int\<close>. The results of
  \<open>Date.now()\<close> and \<open>Math.random()\<close> are inputs of the model.

  The physics step divides by \<open>distSq\<close>, by \<open>dist\<close> and by \<open>star.mass\<close>. The first two
  are never zero; JavaScript yields \<open>NaN\<close> for a body of mass zero, which a real number
  cannot express, so every statement below about new velocities or positions is made for
  bodies of nonzero mass.
\<close>

text \<open>\<open>interface Star\<close> of the canvas component. The field \<open>id\<close> is called \<open>star_id\<close>.\<close>

record Star =
  star_id :: real
  x :: real
  y :: real
  vx :: real
  vy :: real
  mass :: real
  imageIndex :: "int option"

section \<open>The canvas component: physics step\<close>

text \<open>\<open>interface GalaxyCanvasProps\<close>, without the two callbacks.\<close>

record GalaxyCanvasProps =
  width :: real
  height :: real
  gravity :: real
  timeStep :: real
  defaultMass :: real

text \<open>The component's state, one field for each \<open>useState\<close>. An image is the path it
  was loaded from.\<close>

record GalaxyCanvas =
  stars :: "Star list"
  isDragging :: bool
  lastMousePos :: "(real \<times> real) option"
  startDragPos :: "(real \<times> real) option"
  isPaused :: bool
  starImages :: "string list"
  imagesLoaded :: bool

definition softeningFactor :: real where
  "softeningFactor = 5"

text \<open>The constants \<open>distSq\<close> and \<open>force\<close> of the inner callback of \<open>draw\<close>.\<close>

definition distSq :: "Star \<Rightarrow> Star \<Rightarrow> real" where
  "distSq star otherStar =
     (let dx = x otherStar - x star;
          dy = y otherStar - y star
      in dx * dx + dy * dy + softeningFactor * softeningFactor)"

definition force :: "real \<Rightarrow> Star \<Rightarrow> Star \<Rightarrow> real" where
  "force G star otherStar = (G * mass star * mass otherStar) / distSq star otherStar"

text \<open>The two components \<open>forceX\<close> and \<open>forceY\<close> of the force that \<open>otherStar\<close> exerts
  on \<open>star\<close>.\<close>

definition forceX :: "real \<Rightarrow> Star \<Rightarrow> Star \<Rightarrow> real" where
  "forceX G star otherStar =
     (let dx = x otherStar - x star;
          dist = sqrt (distSq star otherStar)
      in force G star otherStar * (dx / dist))"

definition forceY :: "real \<Rightarrow> Star \<Rightarrow> Star \<Rightarrow> real" where
  "forceY G star otherStar =
     (let dy = y otherStar - y star;
          dist = sqrt (distSq star otherStar)
      in force G star otherStar * (dy / dist))"

text \<open>The callback of \<open>currentStars.forEach\<close>: it skips the body itself, recognised by
  its id, and adds the force of every other body to the two accumulators.\<close>

definition addForce :: "real \<Rightarrow> Star \<Rightarrow> Star \<Rightarrow> real \<times> real \<Rightarrow> real \<times> real" where
  "addForce G star otherStar acc =
     (case acc of (netForceX, netForceY) \<Rightarrow>
        if star_id star = star_id otherStar then (netForceX, netForceY)
        else (netForceX + forceX G star otherStar, netForceY + forceY G star otherStar))"

definition netForce :: "real \<Rightarrow> Star list \<Rightarrow> Star \<Rightarrow> real \<times> real" where
  "netForce G currentStars star = fold (addForce G star) currentStars (0, 0)"

text \<open>The callback of \<open>currentStars.map\<close>: velocity first, then position from the new
  velocity; the other fields are copied by the spread \<open>...star\<close>.\<close>

definition updateStar :: "real \<Rightarrow> real \<Rightarrow> Star list \<Rightarrow> Star \<Rightarrow> Star" where
  "updateStar G dt currentStars star =
     (case netForce G currentStars star of (netForceX, netForceY) \<Rightarrow>
        let vx1 = vx star + (netForceX / mass star) * dt;
            vy1 = vy star + (netForceY / mass star) * dt;
            x1 = x star + vx1 * dt;
            y1 = y star + vy1 * dt
        in star\<lparr>x := x1, y := y1, vx := vx1, vy := vy1\<rparr>)"

definition physicsStep :: "real \<Rightarrow> real \<Rightarrow> Star list \<Rightarrow> Star list" where
  "physicsStep G dt currentStars = map (updateStar G dt currentStars) currentStars"

text \<open>One animation frame. Painting the canvas changes no state and is left out; the
  physics update runs unless the simulation is paused.\<close>

definition draw :: "GalaxyCanvasProps \<Rightarrow> GalaxyCanvas \<Rightarrow> GalaxyCanvas" where
  "draw props st =
     (let G = gravity props; dt = timeStep props
      in if \<not> isPaused st then st\<lparr>stars := physicsStep G dt (stars st)\<rparr> else st)"

section \<open>The canvas component: pointer gestures and controls\<close>

record MouseEvent =
  clientX :: real
  clientY :: real

text \<open>The two fields of \<open>getBoundingClientRect()\<close> that the handlers read.\<close>

record DOMRect =
  rect_left :: real
  rect_top :: real

text \<open>Each handler takes \<open>canvas\<close>, the bounding rectangle of \<open>canvasRef.current\<close> or
  \<open>None\<close> when the reference is null, and where it creates a body the values \<open>now\<close> and
  \<open>rnd\<close> that \<open>Date.now()\<close> and \<open>Math.random()\<close> return in that call.\<close>

definition handleMouseDown :: "DOMRect option \<Rightarrow> MouseEvent \<Rightarrow> GalaxyCanvas \<Rightarrow> GalaxyCanvas" where
  "handleMouseDown canvas event st =
     (case canvas of
        None \<Rightarrow> st
      | Some rect \<Rightarrow>
          let px = clientX event - rect_left rect;
              py = clientY event - rect_top rect
          in st\<lparr>isDragging := True, lastMousePos := Some (px, py), startDragPos := Some (px, py)\<rparr>)"

definition randomImageIndex :: "real \<Rightarrow> GalaxyCanvas \<Rightarrow> int option" where
  "randomImageIndex rnd st =
     (if imagesLoaded st then Some \<lfloor>rnd * real (length (starImages st))\<rfloor> else None)"

definition handleMouseMove ::
  "GalaxyCanvasProps \<Rightarrow> DOMRect option \<Rightarrow> real \<Rightarrow> real \<Rightarrow> MouseEvent \<Rightarrow> GalaxyCanvas \<Rightarrow> GalaxyCanvas" where
  "handleMouseMove props canvas now rnd event st =
     (if \<not> isDragging st then st
      else case canvas of
        None \<Rightarrow> st
      | Some rect \<Rightarrow>
          let currentX = clientX event - rect_left rect;
              currentY = clientY event - rect_top rect
          in (case lastMousePos st of
               None \<Rightarrow> st
             | Some (lastX, lastY) \<Rightarrow>
                 let dx = currentX - lastX;
                     dy = currentY - lastY;
                     dist = sqrt (dx * dx + dy * dy)
                 in if dist > 15 then
                      let dragSpeed = 0.1;
                          tangentialVx = (- dy) / dist * dragSpeed * dist;
                          tangentialVy = dx / dist * dragSpeed * dist;
                          newStar = \<lparr>star_id = now, x = currentX, y = currentY,
                                     vx = tangentialVx, vy = tangentialVy,
                                     mass = GalaxyCanvasProps.defaultMass props,
                                     imageIndex = randomImageIndex rnd st\<rparr>
                      in st\<lparr>stars := stars st @ [newStar],
                            lastMousePos := Some (currentX, currentY)\<rparr>
                    else st))"

definition handleMouseUp ::
  "GalaxyCanvasProps \<Rightarrow> DOMRect option \<Rightarrow> real \<Rightarrow> real \<Rightarrow> MouseEvent \<Rightarrow> GalaxyCanvas \<Rightarrow> GalaxyCanvas" where
  "handleMouseUp props canvas now rnd event st =
     (if \<not> isDragging st then st
      else case startDragPos st of
        None \<Rightarrow> st
      | Some (startX, startY) \<Rightarrow>
          (case canvas of
             None \<Rightarrow> st
           | Some rect \<Rightarrow>
               let endX = clientX event - rect_left rect;
                   endY = clientY event - rect_top rect;
                   dx = endX - startX;
                   dy = endY - startY;
                   dSq = dx * dx + dy * dy;
                   clickThresholdSq = 25;
                   st1 = (if dSq < clickThresholdSq then
                            let newStar = \<lparr>star_id = now, x = endX, y = endY, vx = 0, vy = 0,
                                           mass = GalaxyCanvasProps.defaultMass props,
                                           imageIndex = randomImageIndex rnd st\<rparr>
                            in st\<lparr>stars := stars st @ [newStar]\<rparr>
                          else st)
               in st1\<lparr>isDragging := False, lastMousePos := None, startDragPos := None\<rparr>))"

definition handleMouseLeave :: "GalaxyCanvas \<Rightarrow> GalaxyCanvas" where
  "handleMouseLeave st =
     (if isDragging st then st\<lparr>isDragging := False, lastMousePos := None\<rparr> else st)"

definition internalTogglePause :: "GalaxyCanvas \<Rightarrow> GalaxyCanvas" where
  "internalTogglePause st = (let nextPausedState = \<not> isPaused st in st\<lparr>isPaused := nextPausedState\<rparr>)"

definition internalClearStars :: "GalaxyCanvas \<Rightarrow> GalaxyCanvas" where
  "internalClearStars st =
     (let st1 = st\<lparr>stars := []\<rparr>
      in if isPaused st then (let nextPausedState = False in st1\<lparr>isPaused := nextPausedState\<rparr>)
         else st1)"

definition internalAddStars :: "Star list \<Rightarrow> GalaxyCanvas \<Rightarrow> GalaxyCanvas" where
  "internalAddStars newStars st = st\<lparr>stars := stars st @ newStars\<rparr>"

text \<open>The state of the component when it is mounted.\<close>

definition initialCanvas :: GalaxyCanvas where
  "initialCanvas = \<lparr>stars = [], isDragging = False, lastMousePos = None, startDragPos = None,
                     isPaused = False, starImages = [], imagesLoaded = False\<rparr>"

text \<open>What reaches the component from outside: the pointer events of the canvas, the
  four operations of its handle that change state, and an animation frame.\<close>

datatype Event =
    MouseDown "DOMRect option" MouseEvent
  | MouseMove "DOMRect option" real real MouseEvent
  | MouseUp "DOMRect option" real real MouseEvent
  | MouseLeave
  | TogglePause
  | ClearStars
  | AddStars "Star list"
  | Frame

fun dispatch :: "GalaxyCanvasProps \<Rightarrow> Event \<Rightarrow> GalaxyCanvas \<Rightarrow> GalaxyCanvas" where
  "dispatch props (MouseDown canvas event) st = handleMouseDown canvas event st"
| "dispatch props (MouseMove canvas now rnd event) st = handleMouseMove props canvas now rnd event st"
| "dispatch props (MouseUp canvas now rnd event) st = handleMouseUp props canvas now rnd event st"
| "dispatch props MouseLeave st = handleMouseLeave st"
| "dispatch props TogglePause st = internalTogglePause st"
| "dispatch props ClearStars st = internalClearStars st"
| "dispatch props (AddStars newStars) st = internalAddStars newStars st"
| "dispatch props Frame st = draw props st"

definition run :: "GalaxyCanvasProps \<Rightarrow> Event list \<Rightarrow> GalaxyCanvas \<Rightarrow> GalaxyCanvas" where
  "run props events st = fold (dispatch props) events st"

section \<open>The galaxy generator\<close>

text \<open>The parameters of \<open>generateSpiralGalaxyStars\<close>. The two counts are integers.\<close>

record GalaxyParams =
  centerX :: real
  centerY :: real
  numStars :: int
  numArms :: int
  armTightness :: real
  armSpread :: real
  bulgeFraction :: real
  maxRadius :: real
  defaultMass :: real
  gravityConstant :: real
  starImagesLength :: int


























section \<open>The force solver\<close>

lemma distSq_ge: "softeningFactor * softeningFactor \<le> distSq star otherStar"
  by (simp add: distSq_def Let_def)

lemma distSq_ge25: "25 \<le> distSq star otherStar"
  using distSq_ge [of star otherStar] by (simp add: softeningFactor_def)

lemma distSq_pos: "0 < distSq star otherStar"
  using distSq_ge25 [of star otherStar] by linarith

lemma dist_ge5: "5 \<le> sqrt (distSq star otherStar)"
proof -
  have "sqrt 25 \<le> sqrt (distSq star otherStar)"
    using distSq_ge25 [of star otherStar] by (simp only: real_sqrt_le_iff)
  then show ?thesis by simp
qed

lemma force_abs_bound:
  assumes "0 < mass star" and "0 < mass otherStar"
  shows "\<bar>force G star otherStar\<bar> \<le> \<bar>G\<bar> * mass star * mass otherStar / (softeningFactor * softeningFactor)"
proof -
  let ?n = "\<bar>G\<bar> * mass star * mass otherStar"
  have n0: "0 \<le> ?n" using assms by simp
  have eq: "\<bar>force G star otherStar\<bar> = ?n / distSq star otherStar"
    using assms distSq_pos [of star otherStar]
    by (simp add: force_def abs_mult)
  have "?n / distSq star otherStar \<le> ?n / (softeningFactor * softeningFactor)"
    using n0 distSq_ge [of star otherStar]
    by (intro divide_left_mono) (simp_all add: softeningFactor_def distSq_pos)
  with eq show ?thesis by simp
qed

text \<open>
  Claim C2. The denominator \<open>distSq\<close> is at least the square of the softening factor
  \<open>5\<close>, so neither it nor its root \<open>dist\<close> is zero, at any separation of the two bodies.
  For positive masses the magnitude of the force is at most \<open>\<bar>G\<bar> \<cdot> m1 \<cdot> m2 / s\<^sup>2\<close>; for a
  gravitational constant \<open>G \<ge> 0\<close> the force is not negative and at most
  \<open>G \<cdot> m1 \<cdot> m2 / s\<^sup>2\<close>.
\<close>

theorem softened_force_bounded:
  "softeningFactor = 5
   \<and> 0 < softeningFactor * softeningFactor
   \<and> softeningFactor * softeningFactor \<le> distSq star otherStar
   \<and> distSq star otherStar \<noteq> 0
   \<and> sqrt (distSq star otherStar) \<noteq> 0
   \<and> (0 < mass star \<and> 0 < mass otherStar \<longrightarrow>
        \<bar>force G star otherStar\<bar> \<le> \<bar>G\<bar> * mass star * mass otherStar / (softeningFactor * softeningFactor)
        \<and> (0 \<le> G \<longrightarrow>
              0 \<le> force G star otherStar
              \<and> force G star otherStar \<le> G * mass star * mass otherStar / (softeningFactor * softeningFactor)))"
proof -
  have a: "softeningFactor = 5" by (simp add: softeningFactor_def)
  have b: "0 < softeningFactor * softeningFactor" by (simp add: softeningFactor_def)
  have c: "distSq star otherStar \<noteq> 0" using distSq_pos [of star otherStar] by simp
  have d: "sqrt (distSq star otherStar) \<noteq> 0" using c by simp
  have e: "0 \<le> force G star otherStar" if "0 < mass star" "0 < mass otherStar" "0 \<le> G"
    using that distSq_pos [of star otherStar] by (simp add: force_def)
  have f: "force G star otherStar \<le> G * mass star * mass otherStar / (softeningFactor * softeningFactor)"
    if "0 < mass star" "0 < mass otherStar" "0 \<le> G"
    using force_abs_bound [OF that(1,2), of G] that(3) by simp
  show ?thesis using a b c d e f distSq_ge [of star otherStar] force_abs_bound [of star otherStar G]
    by blast
qed

theorem softened_force_bounded_witness:
  "0 < mass \<lparr>star_id = 1, x = 0, y = 0, vx = 0, vy = 0, mass = 2, imageIndex = None\<rparr>
   \<and> 0 < mass \<lparr>star_id = 2, x = 3, y = 4, vx = 0, vy = 0, mass = 3, imageIndex = None\<rparr>
   \<and> (0::real) \<le> 1
   \<and> distSq \<lparr>star_id = 1, x = 0, y = 0, vx = 0, vy = 0, mass = 2, imageIndex = None\<rparr>
         \<lparr>star_id = 2, x = 3, y = 4, vx = 0, vy = 0, mass = 3, imageIndex = None\<rparr> = 50
   \<and> force 1 \<lparr>star_id = 1, x = 0, y = 0, vx = 0, vy = 0, mass = 2, imageIndex = None\<rparr>
         \<lparr>star_id = 2, x = 3, y = 4, vx = 0, vy = 0, mass = 3, imageIndex = None\<rparr>
       \<le> 1 * 2 * 3 / (softeningFactor * softeningFactor)"
  using softened_force_bounded
    [of "\<lparr>star_id = 1, x = 0, y = 0, vx = 0, vy = 0, mass = 2, imageIndex = None\<rparr>"
        "\<lparr>star_id = 2, x = 3, y = 4, vx = 0, vy = 0, mass = 3, imageIndex = None\<rparr>" 1]
  by (simp add: distSq_def softeningFactor_def)

section \<open>The integrator\<close>

lemma updateStar_frame:
  "star_id (updateStar G dt currentStars star) = star_id star"
  "mass (updateStar G dt currentStars star) = mass star"
  "imageIndex (updateStar G dt currentStars star) = imageIndex star"
  by (simp_all add: updateStar_def Let_def split: prod.split)


text \<open>
  Claim C10. A physics step keeps the number of bodies and, body by body, the id, the
  mass and the sprite index; a frame of a running simulation installs the result of the
  physics step, and a frame of a paused simulation leaves the whole state as it is.
\<close>

theorem step_frame:
  "length (physicsStep G dt currentStars) = length currentStars
   \<and> map star_id (physicsStep G dt currentStars) = map star_id currentStars
   \<and> map mass (physicsStep G dt currentStars) = map mass currentStars
   \<and> map imageIndex (physicsStep G dt currentStars) = map imageIndex currentStars
   \<and> (\<not> isPaused st \<longrightarrow> draw props st = st\<lparr>stars := physicsStep (gravity props) (timeStep props) (stars st)\<rparr>)
   \<and> (isPaused st \<longrightarrow> draw props st = st)"
  by (simp add: physicsStep_def draw_def Let_def updateStar_frame comp_def)

theorem step_frame_witness:
  "isPaused \<lparr>stars = [\<lparr>star_id = 1, x = 0, y = 0, vx = 1, vy = 1, mass = 2, imageIndex = None\<rparr>],
             isDragging = False, lastMousePos = None, startDragPos = None,
             isPaused = True, starImages = [], imagesLoaded = False\<rparr>
   \<and> draw \<lparr>width = 800, height = 600, gravity = 1, timeStep = 0.1, defaultMass = 10\<rparr>
        \<lparr>stars = [\<lparr>star_id = 1, x = 0, y = 0, vx = 1, vy = 1, mass = 2, imageIndex = None\<rparr>],
         isDragging = False, lastMousePos = None, startDragPos = None,
         isPaused = True, starImages = [], imagesLoaded = False\<rparr>
     = \<lparr>stars = [\<lparr>star_id = 1, x = 0, y = 0, vx = 1, vy = 1, mass = 2, imageIndex = None\<rparr>],
        isDragging = False, lastMousePos = None, startDragPos = None,
        isPaused = True, starImages = [], imagesLoaded = False\<rparr>"
  using step_frame
    [of 1 1 "[]"
        "\<lparr>stars = [\<lparr>star_id = 1, x = 0, y = 0, vx = 1, vy = 1, mass = 2, imageIndex = None\<rparr>],
          isDragging = False, lastMousePos = None, startDragPos = None,
          isPaused = True, starImages = [], imagesLoaded = False\<rparr>"
        "\<lparr>width = 800, height = 600, gravity = 1, timeStep = 0.1, defaultMass = 10\<rparr>"]
  by simp
















section \<open>Pointer gestures\<close>

text \<open>In every state the component reaches from its initial state, a drag in progress
  has both its points recorded.\<close>

lemma dispatch_keeps_points:
  assumes "isDragging st \<longrightarrow> lastMousePos st \<noteq> None \<and> startDragPos st \<noteq> None"
  shows "isDragging (dispatch props e st) \<longrightarrow>
           lastMousePos (dispatch props e st) \<noteq> None \<and> startDragPos (dispatch props e st) \<noteq> None"
proof (cases e)
  case (MouseDown canvas event)
  then show ?thesis using assms by (simp add: handleMouseDown_def Let_def split: option.split)
next
  case (MouseMove canvas now rnd event)
  then show ?thesis using assms
    by (auto simp: handleMouseMove_def Let_def split: option.split prod.split)
next
  case (MouseUp canvas now rnd event)
  then show ?thesis using assms
    by (auto simp: handleMouseUp_def Let_def split: option.split prod.split)
next
  case MouseLeave
  then show ?thesis using assms by (simp add: handleMouseLeave_def)
next
  case TogglePause
  then show ?thesis using assms by (simp add: internalTogglePause_def Let_def)
next
  case ClearStars
  then show ?thesis using assms by (simp add: internalClearStars_def Let_def)
next
  case (AddStars newStars)
  then show ?thesis using assms by (simp add: internalAddStars_def)
next
  case Frame
  then show ?thesis using assms by (simp add: draw_def Let_def)
qed

lemma dragging_has_points:
  "isDragging (run props events initialCanvas) \<longrightarrow>
     lastMousePos (run props events initialCanvas) \<noteq> None
     \<and> startDragPos (run props events initialCanvas) \<noteq> None"
proof -
  have "isDragging (fold (dispatch props) events st) \<longrightarrow>
          lastMousePos (fold (dispatch props) events st) \<noteq> None
          \<and> startDragPos (fold (dispatch props) events st) \<noteq> None"
    if "isDragging st \<longrightarrow> lastMousePos st \<noteq> None \<and> startDragPos st \<noteq> None" for st
    using that
  proof (induction events arbitrary: st)
    case Nil
    then show ?case by simp
  next
    case (Cons e events)
    show ?case using Cons.IH [OF dispatch_keeps_points [OF Cons.prems, of props e]] by simp
  qed
  then show ?thesis by (simp add: run_def initialCanvas_def)
qed






lemma handleMouseDown_mounted:
  "handleMouseDown (Some rect) event st =
     st\<lparr>isDragging := True,
         lastMousePos := Some (clientX event - rect_left rect, clientY event - rect_top rect),
         startDragPos := Some (clientX event - rect_left rect, clientY event - rect_top rect)\<rparr>"
  by (simp add: handleMouseDown_def Let_def)

lemma handleMouseUp_dragging:
  assumes "isDragging st" and "startDragPos st = Some (startX, startY)"
  shows "handleMouseUp props (Some rect) now rnd event st =
           (let endX = clientX event - rect_left rect; endY = clientY event - rect_top rect
            in if (endX - startX) * (endX - startX) + (endY - startY) * (endY - startY) < 25
               then st\<lparr>stars := stars st @
                          [\<lparr>star_id = now, x = endX, y = endY, vx = 0, vy = 0,
                            mass = GalaxyCanvasProps.defaultMass props,
                            imageIndex = randomImageIndex rnd st\<rparr>],
                       isDragging := False, lastMousePos := None, startDragPos := None\<rparr>
               else st\<lparr>isDragging := False, lastMousePos := None, startDragPos := None\<rparr>)"
  using assms by (simp add: handleMouseUp_def Let_def)

lemma handleMouseMove_keeps:
  "isDragging (handleMouseMove props canvas now rnd event st) = isDragging st"
  "startDragPos (handleMouseMove props canvas now rnd event st) = startDragPos st"
  by (simp_all add: handleMouseMove_def Let_def split: option.split prod.split)

lemma moves_keep:
  assumes "\<forall>e\<in>set moves. \<exists>canvas now rnd event. e = MouseMove canvas now rnd event"
  shows "isDragging (run props moves st) = isDragging st \<and> startDragPos (run props moves st) = startDragPos st"
  using assms unfolding run_def
proof (induction moves arbitrary: st)
  case Nil
  show ?case by simp
next
  case (Cons e moves)
  from Cons.prems obtain canvas now rnd event where e: "e = MouseMove canvas now rnd event" by auto
  from Cons.prems have rest: "\<forall>e\<in>set moves. \<exists>canvas now rnd event. e = MouseMove canvas now rnd event" by simp
  show ?case using Cons.IH [OF rest, of "dispatch props e st"]
    by (simp add: e handleMouseMove_keeps)
qed

text \<open>
  Claim C6. A press, any number of move events, then a release: if the squared distance
  between the press point and the release point is below \<open>25\<close>, the release appends
  exactly one body, at the release point, with zero velocity; if it is \<open>25\<close> or more, the
  release appends nothing. In both cases the component was dragging before the release,
  is not dragging after it, and has forgotten both points.
\<close>

theorem click_or_drag_release:
  fixes before :: GalaxyCanvas and press release :: MouseEvent and pressRect rect :: DOMRect
    and props :: GalaxyCanvasProps and now rnd :: real and moves :: "Event list"
  assumes "\<forall>e\<in>set moves. \<exists>canvas t r event. e = MouseMove canvas t r event"
  defines "st \<equiv> run props (MouseDown (Some pressRect) press # moves) before"
  defines "startX \<equiv> clientX press - rect_left pressRect"
    and "startY \<equiv> clientY press - rect_top pressRect"
    and "endX \<equiv> clientX release - rect_left rect"
    and "endY \<equiv> clientY release - rect_top rect"
  defines "dSq \<equiv> (endX - startX) * (endX - startX) + (endY - startY) * (endY - startY)"
  defines "st1 \<equiv> handleMouseUp props (Some rect) now rnd release st"
  shows "(dSq < 25 \<longrightarrow>
           stars st1 = stars st @
             [\<lparr>star_id = now, x = endX, y = endY, vx = 0, vy = 0,
               mass = GalaxyCanvasProps.defaultMass props,
               imageIndex = randomImageIndex rnd st\<rparr>])
         \<and> (dSq \<ge> 25 \<longrightarrow> stars st1 = stars st)
         \<and> isDragging st
         \<and> \<not> isDragging st1 \<and> lastMousePos st1 = None \<and> startDragPos st1 = None"
proof -
  let ?p = "handleMouseDown (Some pressRect) press before"
  have st: "st = run props moves ?p" by (simp add: st_def run_def)
  have d: "isDragging st" and s: "startDragPos st = Some (startX, startY)"
    using moves_keep [OF assms(1), of props ?p]
    by (simp_all add: st handleMouseDown_mounted startX_def startY_def)
  show ?thesis
    using handleMouseUp_dragging [OF d s, of props rect now rnd release] d
    by (simp add: st1_def dSq_def endX_def endY_def Let_def not_less)
qed

theorem click_or_drag_release_witness:
  "stars (handleMouseUp \<lparr>width = 800, height = 600, gravity = 1, timeStep = 0.1, defaultMass = 10\<rparr>
            (Some \<lparr>rect_left = 0, rect_top = 100\<rparr>) 1700000000000 (1 / 2) \<lparr>clientX = 202, clientY = 401\<rparr>
            (run \<lparr>width = 800, height = 600, gravity = 1, timeStep = 0.1, defaultMass = 10\<rparr>
               [MouseDown (Some \<lparr>rect_left = 0, rect_top = 100\<rparr>) \<lparr>clientX = 200, clientY = 400\<rparr>,
                MouseMove (Some \<lparr>rect_left = 0, rect_top = 100\<rparr>) 1699999999990 (1 / 2)
                  \<lparr>clientX = 201, clientY = 400\<rparr>]
               initialCanvas))
     = [\<lparr>star_id = 1700000000000, x = 202, y = 301, vx = 0, vy = 0, mass = 10, imageIndex = None\<rparr>]
   \<and> stars (handleMouseUp \<lparr>width = 800, height = 600, gravity = 1, timeStep = 0.1, defaultMass = 10\<rparr>
            (Some \<lparr>rect_left = 0, rect_top = 100\<rparr>) 1700000000000 (1 / 2) \<lparr>clientX = 203, clientY = 404\<rparr>
            (run \<lparr>width = 800, height = 600, gravity = 1, timeStep = 0.1, defaultMass = 10\<rparr>
               [MouseDown (Some \<lparr>rect_left = 0, rect_top = 100\<rparr>) \<lparr>clientX = 200, clientY = 400\<rparr>,
                MouseMove (Some \<lparr>rect_left = 0, rect_top = 100\<rparr>) 1699999999990 (1 / 2)
                  \<lparr>clientX = 201, clientY = 400\<rparr>]
               initialCanvas))
     = []"
proof -
  let ?props = "\<lparr>width = 800, height = 600, gravity = 1, timeStep = 0.1, defaultMass = 10\<rparr>"
  let ?rect = "\<lparr>rect_left = 0, rect_top = 100\<rparr>"
  let ?press = "\<lparr>clientX = 200, clientY = 400\<rparr>"
  let ?moves = "[MouseMove (Some ?rect) 1699999999990 (1 / 2) \<lparr>clientX = 201, clientY = 400\<rparr>]"
  have m: "\<forall>e\<in>set ?moves. \<exists>canvas t r event. e = MouseMove canvas t r event"
  proof
    fix e assume "e \<in> set ?moves"
    then have "e = MouseMove (Some ?rect) 1699999999990 (1 / 2) \<lparr>clientX = 201, clientY = 400\<rparr>"
      by simp
    then show "\<exists>canvas t r event. e = MouseMove canvas t r event" by (intro exI)
  qed
  have st: "run ?props (MouseDown (Some ?rect) ?press # ?moves) initialCanvas
            = initialCanvas\<lparr>isDragging := True, lastMousePos := Some (200, 300),
                              startDragPos := Some (200, 300)\<rparr>"
    by (simp add: run_def handleMouseDown_def handleMouseMove_def Let_def)
  show ?thesis
    using st
      click_or_drag_release [OF m, where props = ?props and pressRect = ?rect and rect = ?rect
        and press = ?press and before = initialCanvas and now = 1700000000000 and rnd = "1 / 2"
        and release = "\<lparr>clientX = 202, clientY = 401\<rparr>"]
      click_or_drag_release [OF m, where props = ?props and pressRect = ?rect and rect = ?rect
        and press = ?press and before = initialCanvas and now = 1700000000000 and rnd = "1 / 2"
        and release = "\<lparr>clientX = 203, clientY = 404\<rparr>"]
    by (simp add: randomImageIndex_def initialCanvas_def)
qed

section \<open>Controls\<close>

text \<open>
  Claim C8. After \<open>clearStars\<close> the list of bodies is empty and the simulation is not
  paused, whatever the state was before.
\<close>

theorem clear_empties_and_runs:
  "stars (internalClearStars st) = [] \<and> isPaused (internalClearStars st) = False"
  by (simp add: internalClearStars_def Let_def)

section \<open>Identity of bodies\<close>

text \<open>
  Claim C4. The id of a body created by a click or a drag is the reading of the clock, so
  two bodies created within the same millisecond share it: after a press and two
  qualifying moves at the same clock reading the list holds two bodies with one id.
\<close>

theorem duplicate_ids_same_millisecond:
  "map star_id (stars (run \<lparr>width = 800, height = 600, gravity = 1, timeStep = 0.1, defaultMass = 10\<rparr>
      [MouseDown (Some \<lparr>rect_left = 0, rect_top = 0\<rparr>) \<lparr>clientX = 100, clientY = 100\<rparr>,
       MouseMove (Some \<lparr>rect_left = 0, rect_top = 0\<rparr>) 1700000000000 (1 / 2) \<lparr>clientX = 120, clientY = 100\<rparr>,
       MouseMove (Some \<lparr>rect_left = 0, rect_top = 0\<rparr>) 1700000000000 (1 / 2) \<lparr>clientX = 140, clientY = 100\<rparr>]
      initialCanvas))
   = [1700000000000, 1700000000000]"
  by (simp add: run_def handleMouseDown_def handleMouseMove_def Let_def initialCanvas_def
        randomImageIndex_def)

text \<open>The physics step takes a body with the id of \<open>star\<close> for \<open>star\<close> itself, so two
  bodies that share an id exert no force on each other.\<close>

lemma same_id_no_force:
  "star_id star = star_id otherStar \<Longrightarrow> addForce G star otherStar acc = acc"
  by (simp add: addForce_def split: prod.split)

section \<open>The galaxy generator: number of bodies\<close>




































end
